theory Spec2Isabelle
  imports Main "HOL-Library.AList"
begin

section \<open>Python exceptions\<close>

text \<open>
  Every exception the program can end with is a value of this type. The constructors are the
  Python exception classes. \<open>ValueError\<close> carries its message; the program raises
  it itself with two messages of its own, and the tuple assignment in
  \<^verbatim>\<open>from_string\<close> raises it with the interpreter's message. The other
  classes are raised by the interpreter or by the libraries and carry what identifies them.
\<close>

datatype error =
    ValueError string
  | TypeError
  | KeyError string
  | IndexError
  | RequestException
  | HTTPError nat
  | JSONDecodeError
  | MergeError
  | OutOfBoundsDatetime
  | ConversionError

section \<open>CryptoSymbol\<close>

text \<open>
  \<^verbatim>\<open>
  @dataclass(frozen=True)
  class CryptoSymbol:
      symbol: str
      pair: str
  \<close>
\<close>

record CryptoSymbol =
  symbol :: string
  pair :: string

text \<open>
  Python's \<^verbatim>\<open>str.split(sep)\<close> for a separator of one character: the pieces
  between the separators, empty pieces kept, so that a string with \<open>n\<close> separators has
  \<open>n + 1\<close> pieces.
\<close>

fun split_on :: "char \<Rightarrow> string \<Rightarrow> string list" where
  "split_on c [] = [[]]"
| "split_on c (x # xs) =
     (if x = c then [] # split_on c xs
      else (case split_on c xs of
              [] \<Rightarrow> [[x]]
            | w # ws \<Rightarrow> (x # w) # ws))"

text \<open>
  The body of the \<^verbatim>\<open>try\<close> block:
  \<^verbatim>\<open>
  symbol, pair = symbol_pair_str.split("/")
  return cls(symbol, pair)
  \<close>
  The tuple assignment raises \<open>ValueError\<close> unless the list has exactly two elements
  (the messages are CPython's, versions 3.11 to 3.13; nothing reads them).
\<close>

definition from_string_try :: "string \<Rightarrow> error + CryptoSymbol" where
  "from_string_try symbol_pair_str =
     (case split_on CHR ''/'' symbol_pair_str of
        [a, b] \<Rightarrow> Inr \<lparr>symbol = a, pair = b\<rparr>
      | [] \<Rightarrow> Inl (ValueError ''not enough values to unpack (expected 2, got 0)'')
      | [a] \<Rightarrow> Inl (ValueError ''not enough values to unpack (expected 2, got 1)'')
      | _ \<Rightarrow> Inl (ValueError ''too many values to unpack (expected 2)''))"

text \<open>
  The handler:
  \<^verbatim>\<open>
  except ValueError as e:
      raise e("String format must be 'SYMBOL/PAIR', e.g. 'BTC/USD'")
  \<close>
  \<^verbatim>\<open>e\<close> is the caught exception, an instance of \<open>ValueError\<close>, and the handler
  calls it. An exception instance is not callable, so evaluating the operand of
  \<^verbatim>\<open>raise\<close> raises \<open>TypeError\<close> and the message of the handler is never used.
\<close>

definition from_string :: "string \<Rightarrow> error + CryptoSymbol" where
  "from_string symbol_pair_str =
     (case from_string_try symbol_pair_str of
        Inl (ValueError e) \<Rightarrow> Inl TypeError
      | r \<Rightarrow> r)"

text \<open>\<^verbatim>\<open>return f"{self.symbol}/{self.pair}"\<close>\<close>

definition to_string :: "CryptoSymbol \<Rightarrow> string" where
  "to_string self = symbol self @ ''/'' @ pair self"

section \<open>The table library\<close>

text \<open>
  The program builds its results with pandas, which is not part of the repository. A
  DataFrame is modelled by what the program reads and writes of it: the name of the index
  (\<open>None\<close> for the default range index), the row labels, and the columns in their
  order, each a label with one cell per row. A cell is a missing value (\<open>NaN\<close> stands for
  every missing marker: NaN, None and NaT), a number, a string or a timestamp (seconds since
  the epoch). A number is modelled by its value, an integer: the program reads no number
  but the seconds of the time column.
\<close>

datatype cell = NaN | IntV int | StrV string | TimeV int

record table =
  index_name :: "string option"
  index :: "cell list"
  data :: "(string \<times> cell list) list"

text \<open>\<^verbatim>\<open>df.columns\<close>\<close>

definition columns :: "table \<Rightarrow> string list" where
  "columns df = map fst (data df)"

text \<open>
  A column of numbers that has a missing value is stored as float64, and so is a column of
  64-bit integers that gets one. A float holds every integer of up to 53 bits; a longer
  one is rounded to 53 bits, a tie to the even neighbour. A column with a cell of another
  kind, or with an integer beyond 64 bits, holds objects and is left as it is.
\<close>

function bit_length :: "int \<Rightarrow> nat" where
  "bit_length n = (if n \<le> 0 then 0 else Suc (bit_length (n div 2)))"
  by pat_completeness auto
termination
  by (relation "measure nat") auto

declare bit_length.simps [simp del]

definition float64_int :: "int \<Rightarrow> int" where
  "float64_int n =
     (if \<bar>n\<bar> \<le> 2 ^ 53 then n
      else let s = bit_length \<bar>n\<bar> - 53;
               q = \<bar>n\<bar> div 2 ^ s;
               r = \<bar>n\<bar> mod 2 ^ s;
               h = 2 ^ (s - 1)
           in sgn n * ((if h < r \<or> (r = h \<and> odd q) then q + 1 else q) * 2 ^ s))"

definition float64_column :: "cell list \<Rightarrow> cell list" where
  "float64_column vs =
     (if NaN \<in> set vs
         \<and> list_all (\<lambda>v. case v of NaN \<Rightarrow> True
                               | IntV n \<Rightarrow> - (2 ^ 63) \<le> n \<and> n < 2 ^ 63
                               | _ \<Rightarrow> False) vs
      then map (\<lambda>v. case v of IntV n \<Rightarrow> IntV (float64_int n) | _ \<Rightarrow> v) vs
      else vs)"

text \<open>
  \<^verbatim>\<open>pd.DataFrame(records)\<close> for a list of dicts (each an association list, read
  with \<open>map_of\<close>): the columns are the keys in the order in which they first appear, a
  key that a record lacks gives a missing value, and the rows are numbered from 0.
\<close>

definition first_seen :: "'a list \<Rightarrow> 'a list" where
  "first_seen ks = fold (\<lambda>k acc. if k \<in> set acc then acc else acc @ [k]) ks []"

definition DataFrame :: "(string \<times> cell) list list \<Rightarrow> table" where
  "DataFrame records =
     \<lparr>index_name = None,
      index = map (\<lambda>i. IntV (int i)) [0..<length records],
      data = map (\<lambda>c. (c, float64_column
                             (map (\<lambda>r. case map_of r c of None \<Rightarrow> NaN | Some v \<Rightarrow> v) records)))
                 (first_seen (concat (map (map fst) records)))\<rparr>"

text \<open>Running a conversion that may fail over a column, stopping at the first failure.\<close>

fun map_cells :: "(cell \<Rightarrow> error + cell) \<Rightarrow> cell list \<Rightarrow> error + cell list" where
  "map_cells f [] = Inr []"
| "map_cells f (v # vs) =
     (case f v of
        Inl e \<Rightarrow> Inl e
      | Inr w \<Rightarrow> (case map_cells f vs of Inl e \<Rightarrow> Inl e | Inr ws \<Rightarrow> Inr (w # ws)))"

text \<open>
  \<^verbatim>\<open>df["time"] = pd.to_datetime(df["time"], unit="s")\<close>. Reading a column that
  the table lacks raises \<open>KeyError\<close>. The conversion of one cell, \<open>to_datetime\<close>, is a
  parameter of the development: pandas decides it. \<open>to_datetime_s\<close> below is the
  conversion on what the API sends, integers of seconds; a column that is converted
  already is left as it is. A timestamp is a 64-bit count of nanoseconds, so the seconds
  beyond 9223372036 on either side raise \<open>OutOfBoundsDatetime\<close>.
\<close>

definition convert_time :: "(cell \<Rightarrow> error + cell) \<Rightarrow> table \<Rightarrow> error + table" where
  "convert_time to_datetime df =
     (case map_of (data df) ''time'' of
        None \<Rightarrow> Inl (KeyError ''time'')
      | Some vs \<Rightarrow>
          (case map_cells to_datetime vs of
             Inl e \<Rightarrow> Inl e
           | Inr ws \<Rightarrow>
               Inr (df\<lparr>data := map (\<lambda>(c, v). if c = ''time'' then (c, ws) else (c, v)) (data df)\<rparr>)))"

fun to_datetime_s :: "cell \<Rightarrow> error + cell" where
  "to_datetime_s (IntV n) =
     (if \<bar>n\<bar> \<le> 9223372036 then Inr (TimeV n) else Inl OutOfBoundsDatetime)"
| "to_datetime_s (TimeV t) = Inr (TimeV t)"
| "to_datetime_s NaN = Inr NaN"
| "to_datetime_s (StrV s) = Inl ConversionError"

text \<open>
  \<^verbatim>\<open>df.set_index(index, inplace=True)\<close>: the column becomes the row labels
  and is no longer a column; a label that is no column raises \<open>KeyError\<close> with the
  message \<^verbatim>\<open>None of ['label'] are in the columns\<close> (the label as Python prints a
  string without quotes or escapes).
\<close>

definition set_index :: "table \<Rightarrow> string \<Rightarrow> error + table" where
  "set_index df c =
     (case map_of (data df) c of
        None \<Rightarrow>
          Inl (KeyError (''None of ['' @ [CHR 0x27] @ c @ [CHR 0x27] @ ''] are in the columns''))
      | Some vs \<Rightarrow>
          Inr \<lparr>index_name = Some c, index = vs, data = filter (\<lambda>(k, v). k \<noteq> c) (data df)\<rparr>)"

text \<open>
  \<^verbatim>\<open>df.rename(columns={col: f"{sym_str}_{col}" for col in df.columns}, inplace=True)\<close>
\<close>

definition rename_columns :: "string \<Rightarrow> table \<Rightarrow> table" where
  "rename_columns sym_str df = df\<lparr>data := map (\<lambda>(col, v). (sym_str @ ''_'' @ col, v)) (data df)\<rparr>"

text \<open>
  The order in which an outer join lists its keys. Within one kind of cell it is the order
  of the values; between kinds it is fixed here by the kind.
\<close>

fun str_le :: "string \<Rightarrow> string \<Rightarrow> bool" where
  "str_le [] t = True"
| "str_le (x # xs) [] = False"
| "str_le (x # xs) (y # ys) =
     ((of_char x :: nat) < of_char y \<or> (x = y \<and> str_le xs ys))"

fun cell_kind :: "cell \<Rightarrow> nat" where
  "cell_kind (TimeV t) = 0"
| "cell_kind (IntV n) = 1"
| "cell_kind (StrV s) = 2"
| "cell_kind NaN = 3"

fun cell_le :: "cell \<Rightarrow> cell \<Rightarrow> bool" where
  "cell_le (TimeV a) (TimeV b) = (a \<le> b)"
| "cell_le (IntV a) (IntV b) = (a \<le> b)"
| "cell_le (StrV a) (StrV b) = str_le a b"
| "cell_le a b = (cell_kind a \<le> cell_kind b)"

fun insert_cell :: "cell \<Rightarrow> cell list \<Rightarrow> cell list" where
  "insert_cell x [] = [x]"
| "insert_cell x (y # ys) = (if cell_le x y then x # y # ys else y # insert_cell x ys)"

definition sort_cells :: "cell list \<Rightarrow> cell list" where
  "sort_cells xs = foldr insert_cell xs []"

text \<open>
  \<^verbatim>\<open>pd.merge(left, right, left_index=True, right_index=True, how='outer')\<close>.
  The keys of the result are the row labels of both tables, each once, in order. A key
  gives one row for every pair of a left row and a right row that carry it; where one side
  has no such row the other side's rows are kept and the cells of the missing side are
  missing values. \<open>join_rows\<close> lists these rows as the key with the position of the left
  and of the right row, and \<open>take_cells\<close> reads a column at these positions; a column of
  integers that gets a missing value this way is stored as float64.
\<close>

definition positions :: "cell \<Rightarrow> cell list \<Rightarrow> nat option list" where
  "positions k labels =
     (case filter (\<lambda>i. labels ! i = k) [0..<length labels] of
        [] \<Rightarrow> [None]
      | p # ps \<Rightarrow> map Some (p # ps))"

definition join_rows :: "cell list \<Rightarrow> cell list \<Rightarrow> (cell \<times> nat option \<times> nat option) list" where
  "join_rows ls rs =
     concat (map (\<lambda>k. concat (map (\<lambda>i. map (\<lambda>j. (k, i, j)) (positions k rs)) (positions k ls)))
                 (sort_cells (remdups (ls @ rs))))"

definition take_cells :: "cell list \<Rightarrow> nat option list \<Rightarrow> cell list" where
  "take_cells vs ps =
     float64_column
       (map (\<lambda>p. case p of None \<Rightarrow> NaN | Some i \<Rightarrow> if i < length vs then vs ! i else NaN) ps)"

text \<open>
  A column label that both tables have gets the suffix \<open>_x\<close> on the left and \<open>_y\<close> on
  the right. pandas refuses the merge (\<open>MergeError\<close>) when a suffix makes two labels of
  one side equal that were not equal before: \<open>suffix_dups\<close> walks the labels of one side,
  old and new, with the labels seen so far.
\<close>

fun suffix_dups :: "string list \<Rightarrow> string list \<Rightarrow> (string \<times> string) list \<Rightarrow> bool" where
  "suffix_dups seen_old seen_new [] = False"
| "suffix_dups seen_old seen_new ((old, new) # rest) =
     (if new \<in> set seen_new \<and> old \<notin> set seen_old then True
      else suffix_dups (old # seen_old) (new # seen_new) rest)"

definition add_suffix :: "string list \<Rightarrow> string \<Rightarrow> string \<Rightarrow> string" where
  "add_suffix overlap suffix c = (if c \<in> set overlap then c @ suffix else c)"

definition pd_merge :: "table \<Rightarrow> table \<Rightarrow> error + table" where
  "pd_merge left right =
     (let overlap = filter (\<lambda>c. c \<in> set (columns right)) (columns left);
          lnew = map (add_suffix overlap ''_x'') (columns left);
          rnew = map (add_suffix overlap ''_y'') (columns right);
          joined = join_rows (index left) (index right)
      in if suffix_dups [] [] (zip (columns left) lnew) then Inl MergeError
         else if suffix_dups [] [] (zip (columns right) rnew) then Inl MergeError
         else Inr \<lparr>index_name = (if index_name left = index_name right then index_name left else None),
                   index = map fst joined,
                   data = zip lnew (map (\<lambda>(c, vs). take_cells vs (map (fst \<circ> snd) joined)) (data left))
                        @ zip rnew (map (\<lambda>(c, vs). take_cells vs (map (snd \<circ> snd) joined)) (data right))\<rparr>)"

section \<open>What an outer join keeps\<close>

text \<open>
  The integers that a float holds exactly, and the tables all of whose cells are such.
\<close>

definition float64_exact :: "cell \<Rightarrow> bool" where
  "float64_exact v = (case v of IntV n \<Rightarrow> \<bar>n\<bar> \<le> 2 ^ 53 | _ \<Rightarrow> True)"





section \<open>The upstream API\<close>

text \<open>
  \<^verbatim>\<open>requests.get(url, params=params)\<close> is a call to the outside. A request is the
  URL with the dict of parameters. The upstream is a parameter: a function from the
  requests made so far and the request to what comes back, either nothing (the call
  raises) or a status code with the decoded body (\<open>None\<close> when the body is not JSON).
  The body is read at the shape the API documents: the fields \<open>Response\<close> and
  \<open>Message\<close> are strings when they are there, and \<open>Data\<close> is the list of records
  under \<^verbatim>\<open>data["Data"]["Data"]\<close>, \<open>None\<close> when one of the two keys is not there.
\<close>

datatype param = PStr string | PInt int

type_synonym request = "string \<times> (string \<times> param) list"

record body =
  Response :: "string option"
  Message :: "string option"
  Data :: "(string \<times> cell) list list option"

datatype reply = NoReply | Reply nat "body option"

type_synonym upstream = "request list \<Rightarrow> request \<Rightarrow> reply"

section \<open>symbol\_price\_hist\<close>

text \<open>
  \<^verbatim>\<open>
  url = { "minute": ..., "hour": ..., "day": ... }.get(unit, None)
  \<close>
\<close>

definition api_url :: "string \<Rightarrow> string option" where
  "api_url unit =
     map_of [(''minute'', ''https://min-api.cryptocompare.com/data/v2/histominute''),
             (''hour'', ''https://min-api.cryptocompare.com/data/v2/histohour''),
             (''day'', ''https://min-api.cryptocompare.com/data/v2/histoday'')] unit"

definition invalid_unit :: string where
  "invalid_unit = ''Invalid unit provided. Select from 'minute', 'hour' or 'day'.''"

text \<open>
  The parameters of the request:
  \<^verbatim>\<open>
  params = {"fsym": symbol.symbol, "tsym": symbol.pair, "limit": limit}
  if exchange:
      params["e"] = exchange
  \<close>
  \<^verbatim>\<open>if exchange:\<close> leaves \<open>e\<close> out for \<open>None\<close> and for the empty string.
\<close>

definition request_of :: "string \<Rightarrow> int \<Rightarrow> string option \<Rightarrow> CryptoSymbol \<Rightarrow> request" where
  "request_of url limit exchange sy =
     (url,
      [(''fsym'', PStr (symbol sy)), (''tsym'', PStr (pair sy)), (''limit'', PInt limit)]
      @ (case exchange of
           None \<Rightarrow> []
         | Some x \<Rightarrow> if x = [] then [] else [(''e'', PStr x)]))"

text \<open>
  The inner function \<^verbatim>\<open>_single_symbol_price_hist\<close>, which closes over
  \<^verbatim>\<open>limit\<close>, \<^verbatim>\<open>exchange\<close> and \<^verbatim>\<open>unit\<close>. The state is the list of the
  requests made so far; it is returned also when the call fails, so that a failure before
  the request and one after it are told apart.
  \<^item> an unknown unit raises before anything is sent;
  \<^item> \<^verbatim>\<open>raise_for_status\<close> raises for the status codes 400 to 599;
  \<^item> \<^verbatim>\<open>data.get('Message')\<close> is \<open>None\<close> when the field is missing, which
    the f-string prints as \<open>None\<close>.
\<close>

definition single_symbol_price_hist ::
  "upstream \<Rightarrow> (cell \<Rightarrow> error + cell) \<Rightarrow> int \<Rightarrow> string option \<Rightarrow> string \<Rightarrow>
   CryptoSymbol \<Rightarrow> request list \<Rightarrow> (error + table) \<times> request list" where
  "single_symbol_price_hist get to_datetime limit exchange unit sy log =
     (case api_url unit of
        None \<Rightarrow> (Inl (ValueError invalid_unit), log)
      | Some url \<Rightarrow>
          (let req = request_of url limit exchange sy;
               sent = log @ [req]
           in case get log req of
                NoReply \<Rightarrow> (Inl RequestException, sent)
              | Reply status payload \<Rightarrow>
                  if 400 \<le> status \<and> status < 600 then (Inl (HTTPError status), sent)
                  else
                    (case payload of
                       None \<Rightarrow> (Inl JSONDecodeError, sent)
                     | Some body \<Rightarrow>
                         if Response body \<noteq> Some ''Success'' then
                           (Inl (ValueError (''API Error: '' @
                                   (case Message body of None \<Rightarrow> ''None'' | Some m \<Rightarrow> m))), sent)
                         else
                           (case Data body of
                              None \<Rightarrow> (Inl (KeyError ''Data''), sent)
                            | Some records \<Rightarrow>
                                (convert_time to_datetime (DataFrame records), sent)))))"

text \<open>
  The first loop of the branch for a collection:
  \<^verbatim>\<open>
  for sym in symbol:
      sym_str = sym.to_string()
      data[sym_str] = _single_symbol_price_hist(sym)
      data[sym_str]['time'] = pd.to_datetime(data[sym_str]['time'], unit='s')
      if index != "":
          data[sym_str].set_index(index, inplace=True)
      if merge:
          data[sym_str].rename(columns={...}, inplace=True)
  \<close>
  \<^verbatim>\<open>data\<close> is a dict, which keeps its keys in the order of their first insertion
  and overwrites the value of a key it has: \<open>AList.update\<close>. An exception leaves the
  function, and the dict with it.
\<close>

fun fetch_loop ::
  "upstream \<Rightarrow> (cell \<Rightarrow> error + cell) \<Rightarrow> int \<Rightarrow> string option \<Rightarrow> string \<Rightarrow> bool \<Rightarrow> string \<Rightarrow>
   CryptoSymbol list \<Rightarrow> (string \<times> table) list \<Rightarrow> request list \<Rightarrow>
   (error + (string \<times> table) list) \<times> request list" where
  "fetch_loop get to_datetime limit exchange unit merge index_col [] dict log = (Inr dict, log)"
| "fetch_loop get to_datetime limit exchange unit merge index_col (sy # rest) dict log =
     (case single_symbol_price_hist get to_datetime limit exchange unit sy log of
        (Inl e, sent) \<Rightarrow> (Inl e, sent)
      | (Inr df, sent) \<Rightarrow>
          (case convert_time to_datetime df of
             Inl e \<Rightarrow> (Inl e, sent)
           | Inr df1 \<Rightarrow>
               (case (if index_col \<noteq> [] then set_index df1 index_col else Inr df1) of
                  Inl e \<Rightarrow> (Inl e, sent)
                | Inr df2 \<Rightarrow>
                    fetch_loop get to_datetime limit exchange unit merge index_col rest
                      (AList.update (to_string sy)
                         (if merge then rename_columns (to_string sy) df2 else df2) dict)
                      sent)))"

text \<open>
  The second loop:
  \<^verbatim>\<open>
  for sym in symbol[1:]:
      sym_str = sym.to_string()
      df_res = pd.merge(df_res, data[sym_str], left_index=True, right_index=True, how='outer')
  \<close>
\<close>

fun merge_loop :: "(string \<times> table) list \<Rightarrow> table \<Rightarrow> CryptoSymbol list \<Rightarrow> error + table" where
  "merge_loop dict df_res [] = Inr df_res"
| "merge_loop dict df_res (sy # rest) =
     (case map_of dict (to_string sy) of
        None \<Rightarrow> Inl (KeyError (to_string sy))
      | Some df \<Rightarrow>
          (case pd_merge df_res df of
             Inl e \<Rightarrow> Inl e
           | Inr merged \<Rightarrow> merge_loop dict merged rest))"

text \<open>
  The argument \<^verbatim>\<open>symbol\<close> is one identifier or a list of them
  (\<^verbatim>\<open>isinstance(symbol, Iterable)\<close>); the result is one table or the dict of
  the tables. \<^verbatim>\<open>symbol[0]\<close> raises \<open>IndexError\<close> on the empty list.
\<close>

datatype symbols = Single CryptoSymbol | Many "CryptoSymbol list"

datatype result = Frame table | Frames "(string \<times> table) list"

definition symbol_price_hist ::
  "upstream \<Rightarrow> (cell \<Rightarrow> error + cell) \<Rightarrow> symbols \<Rightarrow> int \<Rightarrow> string option \<Rightarrow> string \<Rightarrow> bool \<Rightarrow>
   string \<Rightarrow> request list \<Rightarrow> (error + result) \<times> request list" where
  "symbol_price_hist get to_datetime symbol_arg limit exchange unit merge index_col log =
     (case symbol_arg of
        Many syms \<Rightarrow>
          (case fetch_loop get to_datetime limit exchange unit merge index_col syms [] log of
             (Inl e, sent) \<Rightarrow> (Inl e, sent)
           | (Inr dict, sent) \<Rightarrow>
               if merge then
                 (case syms of
                    [] \<Rightarrow> (Inl IndexError, sent)
                  | first # rest \<Rightarrow>
                      (case map_of dict (to_string first) of
                         None \<Rightarrow> (Inl (KeyError (to_string first)), sent)
                       | Some df_res \<Rightarrow>
                           (case merge_loop dict df_res rest of
                              Inl e \<Rightarrow> (Inl e, sent)
                            | Inr df \<Rightarrow> (Inr (Frame df), sent))))
               else (Inr (Frames dict), sent))
      | Single sy \<Rightarrow>
          (case single_symbol_price_hist get to_datetime limit exchange unit sy log of
             (Inl e, sent) \<Rightarrow> (Inl e, sent)
           | (Inr df, sent) \<Rightarrow>
               (case convert_time to_datetime df of
                  Inl e \<Rightarrow> (Inl e, sent)
                | Inr df1 \<Rightarrow>
                    (case (if index_col \<noteq> [] then set_index df1 index_col else Inr df1) of
                       Inl e \<Rightarrow> (Inl e, sent)
                     | Inr df2 \<Rightarrow> (Inr (Frame df2), sent)))))"

text \<open>
  The requests that a run over \<open>syms\<close> sends when none of them fails: one for each
  symbol, in the order of the list, and none when the unit is unknown.
\<close>

definition requests_for :: "string \<Rightarrow> int \<Rightarrow> string option \<Rightarrow> CryptoSymbol list \<Rightarrow> request list" where
  "requests_for unit limit exchange syms =
     (case api_url unit of
        None \<Rightarrow> []
      | Some url \<Rightarrow> map (request_of url limit exchange) syms)"

section \<open>An upstream to run the program on\<close>

text \<open>
  Records with the nine fields of the API's daily history, for two markets; every other
  market is answered with the API's error body.
\<close>

definition example_record :: "int \<Rightarrow> int \<Rightarrow> (string \<times> cell) list" where
  "example_record t c =
     [(''time'', IntV t), (''high'', IntV (c + 2)), (''low'', IntV (c - 3)),
      (''open'', IntV (c - 1)), (''volumefrom'', IntV 17), (''volumeto'', IntV 23),
      (''close'', IntV c), (''conversionType'', StrV ''direct''),
      (''conversionSymbol'', StrV [])]"

definition example_upstream :: upstream where
  "example_upstream log req =
     (if map_of (snd req) ''fsym'' = Some (PStr ''BTC'') then
        Reply 200 (Some \<lparr>Response = Some ''Success'', Message = Some [],
                         Data = Some [example_record 1700000000 35000,
                                      example_record 1700086400 36000]\<rparr>)
      else if map_of (snd req) ''fsym'' = Some (PStr ''ETH'') then
        Reply 200 (Some \<lparr>Response = Some ''Success'', Message = Some [],
                         Data = Some [example_record 1700086400 18,
                                      example_record 1700172800 19]\<rparr>)
      else
        Reply 200 (Some \<lparr>Response = Some ''Error'',
                         Message = Some ''market does not exist for this coin pair'',
                         Data = None\<rparr>))"

definition btc_usd :: CryptoSymbol where
  "btc_usd = \<lparr>symbol = ''BTC'', pair = ''USD''\<rparr>"

definition eth_btc :: CryptoSymbol where
  "eth_btc = \<lparr>symbol = ''ETH'', pair = ''BTC''\<rparr>"

definition xyz_usd :: CryptoSymbol where
  "xyz_usd = \<lparr>symbol = ''XYZ'', pair = ''USD''\<rparr>"

text \<open>An upstream that answers every request with the same single record.\<close>

definition one_record_upstream :: upstream where
  "one_record_upstream log req =
     Reply 200 (Some \<lparr>Response = Some ''Success'', Message = None,
                      Data = Some [[(''time'', IntV 0), (''close'', IntV 1)]]\<rparr>)"

section \<open>Splitting\<close>

lemma split_on_not_Nil: "split_on c s \<noteq> []"
  by (induction s) (auto split: list.splits)

lemma split_on_no_sep: "c \<notin> set s \<Longrightarrow> split_on c s = [s]"
  by (induction s) auto

lemma split_on_append_sep:
  "c \<notin> set a \<Longrightarrow> split_on c (a @ c # b) = a # split_on c b"
  by (induction a) auto

lemma split_on_single: "split_on c s = [a] \<Longrightarrow> s = a \<and> c \<notin> set a"
proof (induction s arbitrary: a)
  case Nil
  then show ?case by simp
next
  case (Cons x xs)
  then show ?case
    by (auto split: if_splits list.splits simp: split_on_not_Nil)
qed

lemma split_on_pair:
  "split_on c s = [a, b] \<Longrightarrow> s = a @ c # b \<and> c \<notin> set a \<and> c \<notin> set b"
proof (induction s arbitrary: a)
  case Nil
  then show ?case by simp
next
  case (Cons x xs)
  show ?case
  proof (cases "x = c")
    case True
    with Cons.prems have "a = []" and "split_on c xs = [b]" by simp_all
    with True split_on_single [of c xs b] show ?thesis by simp
  next
    case False
    with Cons.prems obtain w where w: "split_on c xs = [w, b]" and a: "a = x # w"
      by (auto split: list.splits)
    from Cons.IH [OF w] a False show ?thesis by simp
  qed
qed

lemma from_string_Inr_iff:
  "from_string s = Inr y \<longleftrightarrow> split_on CHR ''/'' s = [symbol y, pair y]"
  by (cases y) (auto simp: from_string_def from_string_try_def split: list.splits)

section \<open>Tables\<close>

lemma first_seen_snoc:
  "first_seen (ks @ [k]) = (if k \<in> set (first_seen ks) then first_seen ks else first_seen ks @ [k])"
  by (simp add: first_seen_def)

lemma first_seen_rev_remdups: "first_seen ks = rev (remdups (rev ks))"
proof (induction ks rule: rev_induct)
  case Nil
  then show ?case by (simp add: first_seen_def)
next
  case (snoc k ks)
  then show ?case by (simp add: first_seen_snoc)
qed

lemma map_of_graph: "map_of (map (\<lambda>c. (c, f c)) xs) c = (if c \<in> set xs then Some (f c) else None)"
  by (induction xs) auto


lemma float64_int_exact: "\<bar>n\<bar> \<le> 2 ^ 53 \<Longrightarrow> float64_int n = n"
  by (simp add: float64_int_def)

lemma float64_column_exact:
  assumes "\<forall>v\<in>set vs. float64_exact v"
  shows "float64_column vs = vs"
proof -
  have "map (\<lambda>v. case v of IntV n \<Rightarrow> IntV (float64_int n) | _ \<Rightarrow> v) vs = vs"
    using assms
    by (intro map_idI) (auto simp: float64_exact_def float64_int_exact split: cell.splits)
  then show ?thesis by (simp add: float64_column_def)
qed








section \<open>The loops\<close>

lemma api_url_None_iff: "api_url unit = None \<longleftrightarrow> unit \<notin> {''minute'', ''hour'', ''day''}"
  by (simp add: api_url_def)

lemma single_unknown_unit:
  "api_url unit = None \<Longrightarrow>
   single_symbol_price_hist get conv limit exchange unit sy log = (Inl (ValueError invalid_unit), log)"
  by (simp add: single_symbol_price_hist_def)

lemma one_unknown_unit:
  "api_url unit = None \<Longrightarrow>
   symbol_price_hist get conv (Single sy) limit exchange unit merge index_col log = (Inl (ValueError invalid_unit), log)"
  by (simp add: symbol_price_hist_def single_unknown_unit)

lemma single_sent:
  "single_symbol_price_hist get conv limit exchange unit sy log = (r, sent) \<Longrightarrow>
   sent = log @ requests_for unit limit exchange [sy]"
  by (auto simp: single_symbol_price_hist_def requests_for_def Let_def
           split: option.splits reply.splits if_splits)

text \<open>The loop's step, in terms of the call for one symbol.\<close>

lemma fetch_loop_Cons_Inl:
  assumes "symbol_price_hist get conv (Single sy) limit exchange unit m index_col log = (Inl e, sent)"
  shows "fetch_loop get conv limit exchange unit merge index_col (sy # rest) dict log = (Inl e, sent)"
  using assms
  by (auto simp: symbol_price_hist_def split: prod.splits sum.splits if_splits)

lemma fetch_loop_Cons_Inr:
  assumes "symbol_price_hist get conv (Single sy) limit exchange unit m index_col log = (Inr r, sent)"
  shows "\<exists>df. r = Frame df \<and>
    fetch_loop get conv limit exchange unit merge index_col (sy # rest) dict log =
    fetch_loop get conv limit exchange unit merge index_col rest
      (AList.update (to_string sy) (if merge then rename_columns (to_string sy) df else df) dict) sent"
  using assms
  by (auto simp: symbol_price_hist_def split: prod.splits sum.splits if_splits)

lemma one_sent:
  "symbol_price_hist get conv (Single sy) limit exchange unit m index_col log = (r, sent) \<Longrightarrow>
   sent = log @ requests_for unit limit exchange [sy]"
  by (auto simp: symbol_price_hist_def split: prod.splits sum.splits if_splits dest: single_sent)

lemma requests_for_Nil [simp]: "requests_for unit limit exchange [] = []"
  by (simp add: requests_for_def split: option.splits)

lemma requests_for_Cons:
  "requests_for unit limit exchange (sy # rest) =
   requests_for unit limit exchange [sy] @ requests_for unit limit exchange rest"
  by (simp add: requests_for_def split: option.splits)

lemma fetch_loop_first_failure:
  assumes "i < length syms"
    and "\<forall>j<i. \<exists>df. fst (symbol_price_hist get conv (Single (syms ! j)) limit exchange unit m index_col
                (log @ requests_for unit limit exchange (take j syms))) = Inr (Frame df)"
    and "symbol_price_hist get conv (Single (syms ! i)) limit exchange unit m index_col
           (log @ requests_for unit limit exchange (take i syms)) = (Inl e, sent)"
  shows "fetch_loop get conv limit exchange unit merge index_col syms dict log = (Inl e, sent)"
  using assms
proof (induction syms arbitrary: i dict log)
  case Nil
  then show ?case by simp
next
  case (Cons sy rest)
  show ?case
  proof (cases i)
    case 0
    with Cons.prems(3) have
      "symbol_price_hist get conv (Single sy) limit exchange unit m index_col log = (Inl e, sent)"
      by simp
    then show ?thesis by (rule fetch_loop_Cons_Inl)
  next
    case (Suc k)
    from Cons.prems(2) Suc obtain df0 where
      "fst (symbol_price_hist get conv (Single sy) limit exchange unit m index_col log) = Inr (Frame df0)"
      by fastforce
    then obtain sent0 where one:
      "symbol_price_hist get conv (Single sy) limit exchange unit m index_col log = (Inr (Frame df0), sent0)"
      by (cases "symbol_price_hist get conv (Single sy) limit exchange unit m index_col log") simp
    have sent0: "sent0 = log @ requests_for unit limit exchange [sy]"
      using one by (rule one_sent)
    have step: "fetch_loop get conv limit exchange unit merge index_col (sy # rest) dict log =
      fetch_loop get conv limit exchange unit merge index_col rest
        (AList.update (to_string sy) (if merge then rename_columns (to_string sy) df0 else df0) dict) sent0"
      using fetch_loop_Cons_Inr [OF one] by simp
    have log_eq: "sent0 @ requests_for unit limit exchange (take n rest)
        = log @ requests_for unit limit exchange (take (Suc n) (sy # rest))" for n
      using requests_for_Cons [of unit limit exchange sy "take n rest"] by (simp add: sent0)
    have k: "k < length rest" using Cons.prems(1) Suc by simp
    have earlier: "\<forall>j<k. \<exists>df. fst (symbol_price_hist get conv (Single (rest ! j)) limit exchange unit m
        index_col (sent0 @ requests_for unit limit exchange (take j rest))) = Inr (Frame df)"
    proof (intro allI impI)
      fix j assume "j < k"
      then have "Suc j < i" using Suc by simp
      with Cons.prems(2) show "\<exists>df. fst (symbol_price_hist get conv (Single (rest ! j)) limit exchange
          unit m index_col (sent0 @ requests_for unit limit exchange (take j rest))) = Inr (Frame df)"
        unfolding log_eq by fastforce
    qed
    have fails: "symbol_price_hist get conv (Single (rest ! k)) limit exchange unit m index_col
        (sent0 @ requests_for unit limit exchange (take k rest)) = (Inl e, sent)"
      using Cons.prems(3) Suc unfolding log_eq by simp
    from Cons.IH [OF k earlier fails] step show ?thesis by simp
  qed
qed

lemma fetch_loop_Cons_success:
  assumes "fetch_loop get conv limit exchange unit merge index_col (sy # rest) dict log = (Inr d, sent)"
  shows "\<exists>df sent0.
     symbol_price_hist get conv (Single sy) limit exchange unit m index_col log = (Inr (Frame df), sent0) \<and>
     fetch_loop get conv limit exchange unit merge index_col rest
       (AList.update (to_string sy) (if merge then rename_columns (to_string sy) df else df) dict) sent0
     = (Inr d, sent)"
proof (cases "symbol_price_hist get conv (Single sy) limit exchange unit m index_col log")
  case (Pair r sent0)
  show ?thesis
  proof (cases r)
    case (Inl e)
    with Pair have "symbol_price_hist get conv (Single sy) limit exchange unit m index_col log = (Inl e, sent0)"
      by simp
    from fetch_loop_Cons_Inl [OF this, where merge = merge and rest = rest and dict = dict] assms
    show ?thesis by (simp del: fetch_loop.simps)
  next
    case (Inr res)
    with Pair have one:
      "symbol_price_hist get conv (Single sy) limit exchange unit m index_col log = (Inr res, sent0)"
      by simp
    from fetch_loop_Cons_Inr [OF one, where merge = merge and rest = rest and dict = dict]
    obtain df where res: "res = Frame df"
      and step: "fetch_loop get conv limit exchange unit merge index_col (sy # rest) dict log =
        fetch_loop get conv limit exchange unit merge index_col rest
          (AList.update (to_string sy) (if merge then rename_columns (to_string sy) df else df) dict) sent0"
      by blast
    from step assms have "fetch_loop get conv limit exchange unit merge index_col rest
          (AList.update (to_string sy) (if merge then rename_columns (to_string sy) df else df) dict) sent0
        = (Inr d, sent)"
      by (simp del: fetch_loop.simps)
    with one res show ?thesis by blast
  qed
qed

lemma fetch_loop_keys:
  "fetch_loop get conv limit exchange unit merge index_col syms dict log = (Inr d, sent) \<Longrightarrow>
   map fst d = fold (\<lambda>k acc. if k \<in> set acc then acc else acc @ [k]) (map to_string syms) (map fst dict)"
proof (induction syms arbitrary: dict log)
  case Nil
  then show ?case by simp
next
  case (Cons sy rest)
  from fetch_loop_Cons_success [OF Cons.prems, where m = merge] obtain df sent0 where
    "fetch_loop get conv limit exchange unit merge index_col rest
       (AList.update (to_string sy) (if merge then rename_columns (to_string sy) df else df) dict) sent0
     = (Inr d, sent)" by blast
  from Cons.IH [OF this] show ?case by (simp add: update_keys)
qed

lemma fetch_loop_sent:
  "fetch_loop get conv limit exchange unit merge index_col syms dict log = (Inr d, sent) \<Longrightarrow>
   sent = log @ requests_for unit limit exchange syms"
proof (induction syms arbitrary: dict log)
  case Nil
  then show ?case by simp
next
  case (Cons sy rest)
  from fetch_loop_Cons_success [OF Cons.prems, where m = merge] obtain df sent0 where
    one: "symbol_price_hist get conv (Single sy) limit exchange unit merge index_col log = (Inr (Frame df), sent0)"
    and loop: "fetch_loop get conv limit exchange unit merge index_col rest
       (AList.update (to_string sy) (if merge then rename_columns (to_string sy) df else df) dict) sent0
     = (Inr d, sent)" by blast
  from Cons.IH [OF loop] one_sent [OF one] requests_for_Cons [of unit limit exchange sy rest]
  show ?case by simp
qed

lemma fetch_loop_other_keys:
  "fetch_loop get conv limit exchange unit merge index_col syms dict log = (Inr d, sent) \<Longrightarrow>
   k \<notin> set (map to_string syms) \<Longrightarrow> map_of d k = map_of dict k"
proof (induction syms arbitrary: dict log)
  case Nil
  then show ?case by simp
next
  case (Cons sy rest)
  from fetch_loop_Cons_success [OF Cons.prems(1), where m = merge] obtain df sent0 where
    loop: "fetch_loop get conv limit exchange unit merge index_col rest
       (AList.update (to_string sy) (if merge then rename_columns (to_string sy) df else df) dict) sent0
     = (Inr d, sent)" by blast
  from Cons.prems(2) have "k \<notin> set (map to_string rest)" and "k \<noteq> to_string sy" by auto
  with Cons.IH [OF loop] show ?case by (simp add: update_conv')
qed

lemma fetch_loop_last_occurrence:
  assumes "fetch_loop get conv limit exchange unit merge index_col syms dict log = (Inr d, sent)"
    and "i < length syms"
    and "to_string (syms ! i) \<notin> set (map to_string (drop (Suc i) syms))"
  shows "\<exists>df. fst (symbol_price_hist get conv (Single (syms ! i)) limit exchange unit m index_col
                 (log @ requests_for unit limit exchange (take i syms))) = Inr (Frame df) \<and>
              map_of d (to_string (syms ! i))
              = Some (if merge then rename_columns (to_string (syms ! i)) df else df)"
  using assms
proof (induction syms arbitrary: i dict log)
  case Nil
  then show ?case by simp
next
  case (Cons sy rest)
  from fetch_loop_Cons_success [OF Cons.prems(1), where m = m] obtain df0 sent0 where
    one: "symbol_price_hist get conv (Single sy) limit exchange unit m index_col log = (Inr (Frame df0), sent0)"
    and loop: "fetch_loop get conv limit exchange unit merge index_col rest
       (AList.update (to_string sy) (if merge then rename_columns (to_string sy) df0 else df0) dict) sent0
     = (Inr d, sent)" by blast
  show ?case
  proof (cases i)
    case 0
    with Cons.prems(3) have "to_string sy \<notin> set (map to_string rest)" by simp
    from fetch_loop_other_keys [OF loop this] one 0 show ?thesis
      by (simp add: update_conv')
  next
    case (Suc k)
    have sent0: "sent0 = log @ requests_for unit limit exchange [sy]"
      using one by (rule one_sent)
    have log_eq: "sent0 @ requests_for unit limit exchange (take k rest)
        = log @ requests_for unit limit exchange (take (Suc k) (sy # rest))"
      using requests_for_Cons [of unit limit exchange sy "take k rest"] by (simp add: sent0)
    from Cons.prems(2,3) Suc have "k < length rest"
      and "to_string (rest ! k) \<notin> set (map to_string (drop (Suc k) rest))" by simp_all
    from Cons.IH [OF loop this] show ?thesis
      unfolding log_eq using Suc by (cases merge) auto
  qed
qed

lemma first_seen_fold_distinct:
  "distinct (acc @ ks) \<Longrightarrow> fold (\<lambda>k acc. if k \<in> set acc then acc else acc @ [k]) ks acc = acc @ ks"
  by (induction ks arbitrary: acc) auto

lemma first_seen_distinct: "distinct ks \<Longrightarrow> first_seen ks = ks"
  by (simp add: first_seen_def first_seen_fold_distinct)




section \<open>Merging\<close>
























section \<open>Claims about CryptoSymbol\<close>

text \<open>
  C2. A string without exactly one \<open>/\<close> is to be refused with the message
  "String format must be 'SYMBOL/PAIR', e.g. 'BTC/USD'". The two malformed strings the
  specification names are refused, but with \<open>TypeError\<close>: the handler calls the caught
  exception instead of raising a new one, so the message is never produced.
\<close>

theorem from_string_malformed_TypeError:
  "from_string ''BTCUSD'' = Inl TypeError \<and> from_string ''BTC/USD/EXTRA'' = Inl TypeError"
  by (simp add: from_string_def from_string_try_def)

text \<open>
  C3. Round trip: for a string \<open>b/q\<close> whose parts \<open>b\<close> and \<open>q\<close> are not empty and
  hold no \<open>/\<close>, \<open>from_string\<close> succeeds and \<open>to_string\<close> gives the string back.
\<close>

theorem from_string_to_string_roundtrip:
  assumes "b \<noteq> []" and "q \<noteq> []"
    and "CHR ''/'' \<notin> set b" and "CHR ''/'' \<notin> set q"
  shows "\<exists>y. from_string (b @ ''/'' @ q) = Inr y \<and> to_string y = b @ ''/'' @ q"
proof -
  have "split_on CHR ''/'' (b @ CHR ''/'' # q) = [b, q]"
    using assms(3,4) by (simp add: split_on_append_sep split_on_no_sep)
  then have "from_string (b @ ''/'' @ q) = Inr \<lparr>symbol = b, pair = q\<rparr>"
    by (simp add: from_string_def from_string_try_def)
  then show ?thesis by (simp add: to_string_def)
qed

theorem from_string_to_string_roundtrip_witness:
  "\<exists>y. from_string ''BTC/USD'' = Inr y \<and> to_string y = ''BTC/USD''"
  using from_string_to_string_roundtrip [of "''BTC''" "''USD''"] by simp

text \<open>
  C8, as stated: no operation produces an identifier with an empty field. It fails:
  the string \<open>/\<close> has exactly one separator and is accepted, with both fields empty.
\<close>

theorem from_string_empty_fields:
  "from_string ''/'' = Inr \<lparr>symbol = '''', pair = ''''\<rparr>"
  by (simp add: from_string_def from_string_try_def)

text \<open>
  C8, amended: an identifier that \<open>from_string\<close> returns was built from a string of the
  form \<open>base/quote\<close> with exactly one separator: its two fields are the parts before and
  after the separator, and neither holds a \<open>/\<close>. Either may be empty.
\<close>

theorem from_string_fields:
  assumes "from_string s = Inr y"
  shows "s = symbol y @ ''/'' @ pair y \<and> CHR ''/'' \<notin> set (symbol y) \<and> CHR ''/'' \<notin> set (pair y)"
  using assms split_on_pair [of "CHR ''/''" s "symbol y" "pair y"]
  by (simp add: from_string_Inr_iff)

theorem from_string_fields_witness:
  "from_string ''ETH/BTC'' = Inr \<lparr>symbol = ''ETH'', pair = ''BTC''\<rparr>
   \<and> ''ETH/BTC'' = ''ETH'' @ ''/'' @ ''BTC''
   \<and> CHR ''/'' \<notin> set ''ETH'' \<and> CHR ''/'' \<notin> set ''BTC''"
proof -
  have h: "from_string ''ETH/BTC'' = Inr \<lparr>symbol = ''ETH'', pair = ''BTC''\<rparr>"
    by (simp add: from_string_def from_string_try_def)
  from from_string_fields [OF h] h show ?thesis by simp
qed

section \<open>Claims about symbol\_price\_hist\<close>

text \<open>
  C4, as stated: a unit other than \<open>minute\<close>, \<open>hour\<close> and \<open>day\<close> fails with the error
  of the unit check whether one symbol or a collection is passed. It fails for the empty
  collection: the unit is checked in the call for a symbol, and there is none. With
  \<open>merge\<close> false the empty mapping is returned, with \<open>merge\<close> true
  \<^verbatim>\<open>symbol[0]\<close> raises \<open>IndexError\<close>.
\<close>

theorem unknown_unit_empty_collection:
  "symbol_price_hist example_upstream to_datetime_s (Many []) 2000 None ''week'' False ''time'' []
     = (Inr (Frames []), [])
   \<and> symbol_price_hist example_upstream to_datetime_s (Many []) 2000 None ''week'' True ''time'' []
     = (Inl IndexError, [])"
  by (simp add: symbol_price_hist_def)

text \<open>
  C4, amended: for one symbol and for every collection that is not empty, a unit other
  than \<open>minute\<close>, \<open>hour\<close> and \<open>day\<close> fails with the \<open>ValueError\<close> of the unit check
  (the specification's ConfigurationError) and the list of requests is the one the call
  started with: nothing is sent.
\<close>

theorem unknown_unit_fails_before_any_request:
  assumes "unit \<notin> {''minute'', ''hour'', ''day''}" and "symbol_arg \<noteq> Many []"
  shows "symbol_price_hist get conv symbol_arg limit exchange unit merge index_col log
         = (Inl (ValueError invalid_unit), log)"
proof -
  from assms(1) have u: "api_url unit = None" by (simp add: api_url_None_iff)
  show ?thesis
  proof (cases symbol_arg)
    case (Single sy)
    with u show ?thesis by (simp add: one_unknown_unit)
  next
    case (Many syms)
    with assms(2) obtain sy rest where "syms = sy # rest" by (cases syms) auto
    with Many u show ?thesis
      by (simp add: symbol_price_hist_def single_unknown_unit)
  qed
qed

theorem unknown_unit_fails_before_any_request_witness:
  "symbol_price_hist example_upstream to_datetime_s (Single btc_usd) 2000 None ''week'' False ''time'' []
     = (Inl (ValueError invalid_unit), [])
   \<and> symbol_price_hist example_upstream to_datetime_s (Many [btc_usd, eth_btc]) 2000 None ''week''
       True ''time'' []
     = (Inl (ValueError invalid_unit), [])"
proof -
  have u: "''week'' \<notin> {''minute'', ''hour'', ''day''}" by simp
  have "Single btc_usd \<noteq> Many []" and "Many [btc_usd, eth_btc] \<noteq> Many []" by simp_all
  with u show ?thesis by (simp add: unknown_unit_fails_before_any_request)
qed

text \<open>
  C5. A reply whose status passes \<^verbatim>\<open>raise_for_status\<close> and whose body's
  \<open>Response\<close> is not \<open>Success\<close> makes the call fail with the \<open>ValueError\<close>
  \<open>API Error: \<close> followed by the body's \<open>Message\<close> (the specification's ApiError;
  a body without the field gives \<open>None\<close> as the text). No table is returned, whether
  the symbol was passed alone or is the first of a collection.
\<close>

theorem api_error_carries_message:
  assumes "api_url unit = Some url"
    and "get log (request_of url limit exchange sy) = Reply status (Some b)"
    and "status < 400 \<or> 600 \<le> status"
    and "Response b \<noteq> Some ''Success''"
  shows "symbol_price_hist get conv (Single sy) limit exchange unit merge index_col log =
           (Inl (ValueError (''API Error: '' @ (case Message b of None \<Rightarrow> ''None'' | Some m \<Rightarrow> m))),
            log @ [request_of url limit exchange sy])
       \<and> symbol_price_hist get conv (Many (sy # rest)) limit exchange unit merge index_col log =
           (Inl (ValueError (''API Error: '' @ (case Message b of None \<Rightarrow> ''None'' | Some m \<Rightarrow> m))),
            log @ [request_of url limit exchange sy])"
proof -
  have one: "symbol_price_hist get conv (Single sy) limit exchange unit merge index_col log =
           (Inl (ValueError (''API Error: '' @ (case Message b of None \<Rightarrow> ''None'' | Some m \<Rightarrow> m))),
            log @ [request_of url limit exchange sy])"
    using assms by (auto simp: symbol_price_hist_def single_symbol_price_hist_def Let_def)
  from fetch_loop_Cons_Inl [OF one, where merge = merge and rest = rest and dict = "[]"]
  have "symbol_price_hist get conv (Many (sy # rest)) limit exchange unit merge index_col log =
           (Inl (ValueError (''API Error: '' @ (case Message b of None \<Rightarrow> ''None'' | Some m \<Rightarrow> m))),
            log @ [request_of url limit exchange sy])"
    by (simp add: symbol_price_hist_def del: fetch_loop.simps)
  with one show ?thesis by simp
qed

theorem api_error_carries_message_witness:
  "symbol_price_hist example_upstream to_datetime_s (Single xyz_usd) 2000 None ''day'' False ''time'' []
     = (Inl (ValueError ''API Error: market does not exist for this coin pair''),
        [(''https://min-api.cryptocompare.com/data/v2/histoday'',
          [(''fsym'', PStr ''XYZ''), (''tsym'', PStr ''USD''), (''limit'', PInt 2000)])])"
proof -
  have u: "api_url ''day'' = Some ''https://min-api.cryptocompare.com/data/v2/histoday''"
    by (simp add: api_url_def)
  have g: "example_upstream []
             (request_of ''https://min-api.cryptocompare.com/data/v2/histoday'' 2000 None xyz_usd)
           = Reply 200 (Some \<lparr>Response = Some ''Error'',
                               Message = Some ''market does not exist for this coin pair'',
                               Data = None\<rparr>)"
    by (simp add: example_upstream_def request_of_def xyz_usd_def)
  have s: "(200::nat) < 400 \<or> (600::nat) \<le> 200" by simp
  have r: "Response \<lparr>Response = Some ''Error'',
                     Message = Some ''market does not exist for this coin pair'',
                     Data = None\<rparr> \<noteq> Some ''Success''" by simp
  from api_error_carries_message
    [where get = example_upstream and log = "[]" and status = 200 and conv = to_datetime_s
       and merge = False and index_col = "''time''" and rest = "[]", OF u g s r]
  show ?thesis by (simp add: request_of_def xyz_usd_def)
qed

text \<open>
  C9. For one symbol the result is the same for both values of \<open>merge\<close>, whatever the
  upstream answers. When the reply passes \<^verbatim>\<open>raise_for_status\<close>, its body says
  \<open>Success\<close> and holds the records, a record has the field \<open>time\<close>, the conversion of
  the time column succeeds (\<open>ts1\<close>, in the inner function) and succeeds again on its own
  result (\<open>ts2\<close>, in the function itself), and the index column is empty or a field of
  the records, then one request is sent and one table is returned:
  \<^item> its index is the range of the row numbers when the index column is empty, and
    otherwise the column of that name, which is no longer a column;
  \<^item> its columns are the fields of the records in the order in which they first appear;
  \<^item> the column \<open>time\<close> holds the converted values \<open>ts2\<close>, every other column the values
    of its field in the records, a missing value where a record lacks the field.
  The integers of the records are taken to be those a float holds exactly, since a column
  with a missing value is stored as float64.
\<close>

theorem single_symbol_ignores_merge:
  "symbol_price_hist get conv (Single sy) limit exchange unit merge index_col log
   = symbol_price_hist get conv (Single sy) limit exchange unit merge' index_col log
   \<and> (api_url unit = Some url
      \<and> get log (request_of url limit exchange sy) = Reply status (Some b)
      \<and> (status < 400 \<or> 600 \<le> status)
      \<and> Response b = Some ''Success'' \<and> Data b = Some records
      \<and> (\<forall>r\<in>set records. \<forall>p\<in>set r. float64_exact (snd p))
      \<and> ''time'' \<in> set (concat (map (map fst) records))
      \<and> map_cells conv (map (\<lambda>r. case map_of r ''time'' of None \<Rightarrow> NaN | Some v \<Rightarrow> v) records)
          = Inr ts1
      \<and> map_cells conv ts1 = Inr ts2
      \<and> (index_col = [] \<or> index_col \<in> set (concat (map (map fst) records)))
     \<longrightarrow> (\<exists>df. symbol_price_hist get conv (Single sy) limit exchange unit merge index_col log
                 = (Inr (Frame df), log @ [request_of url limit exchange sy])
            \<and> index_name df = (if index_col = [] then None else Some index_col)
            \<and> index df =
                (if index_col = [] then map (\<lambda>i. IntV (int i)) [0..<length records]
                 else if index_col = ''time'' then ts2
                 else map (\<lambda>r. case map_of r index_col of None \<Rightarrow> NaN | Some v \<Rightarrow> v) records)
            \<and> columns df =
                filter (\<lambda>c. index_col = [] \<or> c \<noteq> index_col)
                  (rev (remdups (rev (concat (map (map fst) records)))))
            \<and> (\<forall>c\<in>set (columns df).
                  map_of (data df) c =
                  Some (if c = ''time'' then ts2
                        else map (\<lambda>r. case map_of r c of None \<Rightarrow> NaN | Some v \<Rightarrow> v) records))))"
proof (intro conjI impI)
  show "symbol_price_hist get conv (Single sy) limit exchange unit merge index_col log
      = symbol_price_hist get conv (Single sy) limit exchange unit merge' index_col log"
    by (simp add: symbol_price_hist_def)
next
  let ?keys = "concat (map (map fst) records)"
  let ?ks = "rev (remdups (rev ?keys))"
  let ?raw = "\<lambda>c. map (\<lambda>r. case map_of r c of None \<Rightarrow> NaN | Some v \<Rightarrow> v) records"
  let ?cells = "\<lambda>c. if c = ''time'' then ts2 else ?raw c"
  assume H: "api_url unit = Some url
      \<and> get log (request_of url limit exchange sy) = Reply status (Some b)
      \<and> (status < 400 \<or> 600 \<le> status)
      \<and> Response b = Some ''Success'' \<and> Data b = Some records
      \<and> (\<forall>r\<in>set records. \<forall>p\<in>set r. float64_exact (snd p))
      \<and> ''time'' \<in> set ?keys
      \<and> map_cells conv (?raw ''time'') = Inr ts1
      \<and> map_cells conv ts1 = Inr ts2
      \<and> (index_col = [] \<or> index_col \<in> set ?keys)"
  then have time: "''time'' \<in> set ?ks" and c1: "map_cells conv (?raw ''time'') = Inr ts1"
    and c2: "map_cells conv ts1 = Inr ts2"
    and ic: "index_col = [] \<or> index_col \<in> set ?ks"
    and exact: "\<forall>r\<in>set records. \<forall>p\<in>set r. float64_exact (snd p)"
    by simp_all
  have stored: "float64_column (?raw c) = ?raw c" for c
  proof (rule float64_column_exact, rule ballI)
    fix v assume "v \<in> set (?raw c)"
    then obtain r where r: "r \<in> set records"
      and v: "v = (case map_of r c of None \<Rightarrow> NaN | Some w \<Rightarrow> w)" by auto
    show "float64_exact v"
    proof (cases "map_of r c")
      case None
      with v show ?thesis by (simp add: float64_exact_def)
    next
      case (Some w)
      then have "(c, w) \<in> set r" by (rule map_of_SomeD)
      with exact r have "float64_exact (snd (c, w))" by blast
      with Some v show ?thesis by simp
    qed
  qed
  have frame: "DataFrame records =
      \<lparr>index_name = None, index = map (\<lambda>i. IntV (int i)) [0..<length records],
       data = map (\<lambda>c. (c, ?raw c)) ?ks\<rparr>"
    by (simp add: DataFrame_def first_seen_rev_remdups stored)
  define T1 where "T1 =
      \<lparr>index_name = None, index = map (\<lambda>i. IntV (int i)) [0..<length records],
       data = map (\<lambda>c. (c, if c = ''time'' then ts1 else ?raw c)) ?ks\<rparr>"
  define T2 where "T2 =
      \<lparr>index_name = None, index = map (\<lambda>i. IntV (int i)) [0..<length records],
       data = map (\<lambda>c. (c, ?cells c)) ?ks\<rparr>"
  have conv1: "convert_time conv (DataFrame records) = Inr T1"
    unfolding frame convert_time_def using time c1
    by (simp add: map_of_graph T1_def comp_def del: set_rev set_remdups set_concat)
  have conv2: "convert_time conv T1 = Inr T2"
    unfolding T1_def convert_time_def using time c2
    by (simp add: map_of_graph T2_def comp_def del: set_rev set_remdups set_concat)
  have inner: "single_symbol_price_hist get conv limit exchange unit sy log
      = (Inr T1, log @ [request_of url limit exchange sy])"
    using H conv1 by (auto simp: single_symbol_price_hist_def Let_def)
  show "\<exists>df. symbol_price_hist get conv (Single sy) limit exchange unit merge index_col log
                 = (Inr (Frame df), log @ [request_of url limit exchange sy])
            \<and> index_name df = (if index_col = [] then None else Some index_col)
            \<and> index df =
                (if index_col = [] then map (\<lambda>i. IntV (int i)) [0..<length records]
                 else if index_col = ''time'' then ts2
                 else ?raw index_col)
            \<and> columns df = filter (\<lambda>c. index_col = [] \<or> c \<noteq> index_col) ?ks
            \<and> (\<forall>c\<in>set (columns df). map_of (data df) c = Some (?cells c))"
  proof (cases "index_col = []")
    case True
    then have "symbol_price_hist get conv (Single sy) limit exchange unit merge index_col log
                 = (Inr (Frame T2), log @ [request_of url limit exchange sy])"
      by (simp add: symbol_price_hist_def inner conv2)
    moreover have "columns T2 = ?ks" by (simp add: T2_def columns_def comp_def)
    moreover have "\<forall>c\<in>set ?ks. map_of (data T2) c = Some (?cells c)"
      by (simp add: T2_def map_of_graph del: set_rev set_remdups set_concat)
    ultimately show ?thesis using True by (intro exI [of _ T2]) (simp add: T2_def)
  next
    case False
    with ic have mem: "index_col \<in> set ?ks" by simp
    define T3 where "T3 =
      \<lparr>index_name = Some index_col, index = ?cells index_col,
       data = map (\<lambda>c. (c, ?cells c)) (filter (\<lambda>c. c \<noteq> index_col) ?ks)\<rparr>"
    have "set_index T2 index_col = Inr T3"
      unfolding set_index_def T2_def using mem
      by (simp add: map_of_graph T3_def filter_map comp_def del: set_rev set_remdups set_concat)
    with False have "symbol_price_hist get conv (Single sy) limit exchange unit merge index_col log
                 = (Inr (Frame T3), log @ [request_of url limit exchange sy])"
      by (simp add: symbol_price_hist_def inner conv2)
    moreover have "columns T3 = filter (\<lambda>c. c \<noteq> index_col) ?ks"
      by (simp add: T3_def columns_def comp_def)
    moreover have "\<forall>c\<in>set (filter (\<lambda>c. c \<noteq> index_col) ?ks). map_of (data T3) c = Some (?cells c)"
      by (simp add: T3_def map_of_graph del: set_rev set_remdups set_concat set_filter)
    ultimately show ?thesis using False by (intro exI [of _ T3]) (simp add: T3_def)
  qed
qed

theorem single_symbol_ignores_merge_witness:
  "\<exists>df. symbol_price_hist example_upstream to_datetime_s (Single btc_usd) 2000 None ''minute''
            True ''time'' []
          = (Inr (Frame df),
             [(''https://min-api.cryptocompare.com/data/v2/histominute'',
               [(''fsym'', PStr ''BTC''), (''tsym'', PStr ''USD''), (''limit'', PInt 2000)])])
     \<and> index_name df = Some ''time''
     \<and> index df = [TimeV 1700000000, TimeV 1700086400]
     \<and> columns df = [''high'', ''low'', ''open'', ''volumefrom'', ''volumeto'', ''close'',
                      ''conversionType'', ''conversionSymbol'']
     \<and> map_of (data df) ''close'' = Some [IntV 35000, IntV 36000]"
proof -
  let ?records = "[example_record 1700000000 35000, example_record 1700086400 36000]"
  let ?url = "''https://min-api.cryptocompare.com/data/v2/histominute''"
  let ?b = "\<lparr>Response = Some ''Success'', Message = Some [], Data = Some ?records\<rparr>"
  have H: "api_url ''minute'' = Some ?url
      \<and> example_upstream [] (request_of ?url 2000 None btc_usd) = Reply 200 (Some ?b)
      \<and> ((200::nat) < 400 \<or> (600::nat) \<le> 200)
      \<and> Response ?b = Some ''Success'' \<and> Data ?b = Some ?records
      \<and> (\<forall>r\<in>set ?records. \<forall>p\<in>set r. float64_exact (snd p))
      \<and> ''time'' \<in> set (concat (map (map fst) ?records))
      \<and> map_cells to_datetime_s
           (map (\<lambda>r. case map_of r ''time'' of None \<Rightarrow> NaN | Some v \<Rightarrow> v) ?records)
          = Inr [TimeV 1700000000, TimeV 1700086400]
      \<and> map_cells to_datetime_s [TimeV 1700000000, TimeV 1700086400]
          = Inr [TimeV 1700000000, TimeV 1700086400]
      \<and> (''time'' = [] \<or> ''time'' \<in> set (concat (map (map fst) ?records)))"
    by code_simp
  have cols: "filter (\<lambda>c. ''time'' = [] \<or> c \<noteq> ''time'')
                (rev (remdups (rev (concat (map (map fst) ?records)))))
      = [''high'', ''low'', ''open'', ''volumefrom'', ''volumeto'', ''close'',
         ''conversionType'', ''conversionSymbol'']"
    by code_simp
  have close: "map (\<lambda>r. case map_of r ''close'' of None \<Rightarrow> NaN | Some v \<Rightarrow> v) ?records
      = [IntV 35000, IntV 36000]"
    by code_simp
  from single_symbol_ignores_merge
    [where get = example_upstream and conv = to_datetime_s and merge = True and merge' = False
       and log = "[]" and index_col = "''time''", THEN conjunct2, THEN mp, OF H]
  show ?thesis unfolding cols using close by (auto simp: request_of_def btc_usd_def)
qed

text \<open>
  C10. The empty collection with \<open>merge\<close> false returns the empty mapping, whatever the
  unit is, and sends nothing.
\<close>

theorem empty_collection_unmerged:
  "symbol_price_hist get conv (Many []) limit exchange unit False index_col log
   = (Inr (Frames []), log)"
  by (simp add: symbol_price_hist_def)

text \<open>
  C7. When the call for one symbol of a collection fails, the symbols before it having
  succeeded, the call for the collection ends with the same exception and the same list of
  requests: the exception is passed on unchanged, nothing is returned, the failed request
  is not sent again and the symbols after it are not requested. The state in which the
  symbol at position \<open>i\<close> is fetched is the one after the requests of the symbols before it.
\<close>

theorem first_failure_propagates:
  assumes "i < length syms"
    and "\<forall>j<i. \<exists>df. fst (symbol_price_hist get conv (Single (syms ! j)) limit exchange unit merge
                index_col (log @ requests_for unit limit exchange (take j syms))) = Inr (Frame df)"
    and "symbol_price_hist get conv (Single (syms ! i)) limit exchange unit merge index_col
           (log @ requests_for unit limit exchange (take i syms)) = (Inl e, sent)"
  shows "symbol_price_hist get conv (Many syms) limit exchange unit merge index_col log = (Inl e, sent)"
  using fetch_loop_first_failure [OF assms, where dict = "[]"]
  by (simp add: symbol_price_hist_def)

theorem first_failure_propagates_witness:
  "symbol_price_hist example_upstream to_datetime_s (Many [btc_usd, xyz_usd, eth_btc]) 2000 None
     ''day'' False ''time'' []
   = (Inl (ValueError ''API Error: market does not exist for this coin pair''),
      [(''https://min-api.cryptocompare.com/data/v2/histoday'',
        [(''fsym'', PStr ''BTC''), (''tsym'', PStr ''USD''), (''limit'', PInt 2000)]),
       (''https://min-api.cryptocompare.com/data/v2/histoday'',
        [(''fsym'', PStr ''XYZ''), (''tsym'', PStr ''USD''), (''limit'', PInt 2000)])])"
proof -
  have len: "(1::nat) < length [btc_usd, xyz_usd, eth_btc]" by simp
  have "case fst (symbol_price_hist example_upstream to_datetime_s (Single btc_usd) 2000 None
                    ''day'' False ''time'' []) of
          Inr (Frame df) \<Rightarrow> True | _ \<Rightarrow> False"
    by code_simp
  then have first: "\<exists>df. fst (symbol_price_hist example_upstream to_datetime_s (Single btc_usd) 2000
                     None ''day'' False ''time'' []) = Inr (Frame df)"
    by (auto split: sum.splits result.splits)
  have earlier: "\<forall>j<1. \<exists>df. fst (symbol_price_hist example_upstream to_datetime_s
        (Single ([btc_usd, xyz_usd, eth_btc] ! j)) 2000 None ''day'' False ''time''
        ([] @ requests_for ''day'' 2000 None (take j [btc_usd, xyz_usd, eth_btc]))) = Inr (Frame df)"
    using first by simp
  have fails: "symbol_price_hist example_upstream to_datetime_s
        (Single ([btc_usd, xyz_usd, eth_btc] ! 1)) 2000 None ''day'' False ''time''
        ([] @ requests_for ''day'' 2000 None (take 1 [btc_usd, xyz_usd, eth_btc]))
      = (Inl (ValueError ''API Error: market does not exist for this coin pair''),
         [(''https://min-api.cryptocompare.com/data/v2/histoday'',
           [(''fsym'', PStr ''BTC''), (''tsym'', PStr ''USD''), (''limit'', PInt 2000)]),
          (''https://min-api.cryptocompare.com/data/v2/histoday'',
           [(''fsym'', PStr ''XYZ''), (''tsym'', PStr ''USD''), (''limit'', PInt 2000)])])"
    by code_simp
  from first_failure_propagates [OF len earlier fails] show ?thesis .
qed

text \<open>
  C6, as stated: with \<open>merge\<close> false the mapping has exactly one entry per input symbol.
  It fails when a symbol occurs twice: both are requested, and the dict keeps one entry.
\<close>

theorem unmerged_duplicate_symbols_one_entry:
  "fst (symbol_price_hist one_record_upstream to_datetime_s (Many [btc_usd, btc_usd]) 2000 None
          ''day'' False ''time'' [])
   = Inr (Frames [(''BTC/USD'',
                   \<lparr>index_name = Some ''time'', index = [TimeV 0], data = [(''close'', [IntV 1])]\<rparr>)])"
  by code_simp

text \<open>
  C6, amended: with \<open>merge\<close> false a call that succeeds returns a mapping whose keys are
  the strings of the symbols, each once, in the order in which they first occur; when the
  strings are pairwise distinct that is one entry per symbol in the order of the input. One
  request is sent for every symbol of the input. The entry of a string holds the table that
  the call for the last symbol with that string returns when it is made alone in the state
  reached: time converted, indexed when the index column is not empty, columns not renamed.
\<close>

theorem unmerged_mapping:
  assumes "symbol_price_hist get conv (Many syms) limit exchange unit False index_col log = (Inr r, sent)"
  shows "\<exists>dict. r = Frames dict
     \<and> map fst dict = first_seen (map to_string syms)
     \<and> (distinct (map to_string syms) \<longrightarrow> map fst dict = map to_string syms)
     \<and> sent = log @ requests_for unit limit exchange syms
     \<and> (\<forall>i<length syms. to_string (syms ! i) \<notin> set (map to_string (drop (Suc i) syms)) \<longrightarrow>
          (\<exists>df. fst (symbol_price_hist get conv (Single (syms ! i)) limit exchange unit False index_col
                     (log @ requests_for unit limit exchange (take i syms))) = Inr (Frame df)
              \<and> map_of dict (to_string (syms ! i)) = Some df))"
proof -
  from assms obtain dict where
    loop: "fetch_loop get conv limit exchange unit False index_col syms [] log = (Inr dict, sent)"
    and r: "r = Frames dict"
    by (auto simp: symbol_price_hist_def split: prod.splits sum.splits)
  have keys: "map fst dict = first_seen (map to_string syms)"
    using fetch_loop_keys [OF loop] by (simp add: first_seen_def)
  have last: "\<exists>df. fst (symbol_price_hist get conv (Single (syms ! i)) limit exchange unit False index_col
                     (log @ requests_for unit limit exchange (take i syms))) = Inr (Frame df)
              \<and> map_of dict (to_string (syms ! i)) = Some df"
    if "i < length syms" and "to_string (syms ! i) \<notin> set (map to_string (drop (Suc i) syms))" for i
    using fetch_loop_last_occurrence [OF loop that, where m = False] by simp
  from r keys last fetch_loop_sent [OF loop] show ?thesis
    by (auto simp: first_seen_distinct)
qed

theorem unmerged_mapping_witness:
  "\<exists>dict. fst (symbol_price_hist example_upstream to_datetime_s (Many [btc_usd, eth_btc]) 2000 None
                 ''day'' False ''time'' []) = Inr (Frames dict)
     \<and> map fst dict = [''BTC/USD'', ''ETH/BTC'']"
proof -
  have "case symbol_price_hist example_upstream to_datetime_s (Many [btc_usd, eth_btc]) 2000 None
               ''day'' False ''time'' [] of
          (Inr r, sent) \<Rightarrow> True | _ \<Rightarrow> False"
    by code_simp
  then obtain r sent where run:
    "symbol_price_hist example_upstream to_datetime_s (Many [btc_usd, eth_btc]) 2000 None
       ''day'' False ''time'' [] = (Inr r, sent)"
    by (auto split: prod.splits sum.splits)
  from unmerged_mapping [OF run] obtain dict where "r = Frames dict"
    and "map fst dict = first_seen (map to_string [btc_usd, eth_btc])" by blast
  moreover have "first_seen (map to_string [btc_usd, eth_btc]) = [''BTC/USD'', ''ETH/BTC'']"
    by code_simp
  ultimately show ?thesis using run by simp
qed




end
